theory Spec2Isabelle
  imports Main "HOL-Library.Sublist"
begin

section \<open>Python values used by the finance collector\<close>

text \<open>
  The module \<^verbatim>\<open>ai2business/kpi_collector/finance_collector.py\<close> consists of three
  classes: \<^verbatim>\<open>FinanceProduct\<close> (a dictionary of results), \<^verbatim>\<open>DesignerFinanceCollector\<close>
  (the builder, which owns one \<^verbatim>\<open>FinanceProduct\<close> at a time) and \<^verbatim>\<open>FinanceCollector\<close>
  (the director, which holds a reference to a builder). Objects are shared by
  reference in Python, so they live in an explicit heap here and every method takes
  the reference of \<^verbatim>\<open>self\<close> and the heap, and returns its result with the new heap.
\<close>

text \<open>
  Exceptions. \<open>AttributeError t a\<close> is Python's
  \<^verbatim>\<open>AttributeError: 't' object has no attribute 'a'\<close>; \<open>BackendError\<close> is whatever
  the market-data library raises by itself; \<open>DanglingReference\<close> answers a reference
  that names no object of the heap (no Python program can produce one).
\<close>

datatype error =
    AttributeError string string
  | BackendError string
  | DanglingReference nat

text \<open>
  A Python \<^verbatim>\<open>dict\<close> keeps its keys in insertion order; assigning to a key that is
  present replaces the value where it stands, assigning to a new key appends it.
\<close>

type_synonym ('k, 'v) pydict = "('k \<times> 'v) list"

fun dict_setitem :: "'k \<Rightarrow> 'v \<Rightarrow> ('k, 'v) pydict \<Rightarrow> ('k, 'v) pydict" where
  "dict_setitem k v [] = [(k, v)]"
| "dict_setitem k v (p # ps) =
     (if fst p = k then (k, v) # ps else p # dict_setitem k v ps)"

definition dict_keys :: "('k, 'v) pydict \<Rightarrow> 'k list" where
  "dict_keys d = map fst d"

definition dict_get :: "('k, 'v) pydict \<Rightarrow> 'k \<Rightarrow> 'v option" where
  "dict_get d k = map_of d k"

text \<open>\<^verbatim>\<open>sep.join(xs)\<close> on a sequence of strings.\<close>

fun str_join :: "string \<Rightarrow> string list \<Rightarrow> string" where
  "str_join sep [] = []"
| "str_join sep [x] = x"
| "str_join sep (x # y # ys) = x @ sep @ str_join sep (y # ys)"

text \<open>
  A function object, as far as \<^verbatim>\<open>add_product\<close> looks at it: its \<^verbatim>\<open>__name__\<close>.
  \<open>ident\<close> is the identity of the object, so that two distinct functions may carry
  the same name.
\<close>

record callable =
  ident :: nat
  name :: string

section \<open>FinanceProduct\<close>

record 'a FinanceProduct =
  product_parts :: "(string, 'a) pydict"

type_synonym ref = nat

definition lookup :: "'x list \<Rightarrow> ref \<Rightarrow> 'x option" where
  "lookup xs r = (if r < length xs then Some (xs ! r) else None)"

text \<open>\<^verbatim>\<open>FinanceProduct.__init__\<close>: \<^verbatim>\<open>self.product_parts = {}\<close>.\<close>

definition FinanceProduct_init :: "'a FinanceProduct" where
  "FinanceProduct_init = \<lparr>product_parts = []\<rparr>"

text \<open>\<^verbatim>\<open>self.product_parts[key.__name__] = value\<close>, on the object itself.\<close>

definition add_product_obj :: "callable \<Rightarrow> 'a \<Rightarrow> 'a FinanceProduct \<Rightarrow> 'a FinanceProduct" where
  "add_product_obj key val p = p\<lparr>product_parts := dict_setitem (name key) val (product_parts p)\<rparr>"

text \<open>\<^verbatim>\<open>f"Product parts: {', '.join(self.product_parts)}"\<close>: joining a dict joins its keys.\<close>

definition list_product_parts_obj :: "'a FinanceProduct \<Rightarrow> string" where
  "list_product_parts_obj p = ''Product parts: '' @ str_join '', '' (dict_keys (product_parts p))"

definition return_product_obj :: "'a FinanceProduct \<Rightarrow> (string, 'a) pydict" where
  "return_product_obj p = product_parts p"

text \<open>A sequence of \<^verbatim>\<open>add_product\<close> calls on the object, first call first.\<close>

definition add_all_obj :: "(callable \<times> 'a) list \<Rightarrow> 'a FinanceProduct \<Rightarrow> 'a FinanceProduct" where
  "add_all_obj kvs p = foldl (\<lambda>p' (key, val). add_product_obj key val p') p kvs"

section \<open>The market-data library\<close>

text \<open>
  \<^verbatim>\<open>yfinance\<close> is not part of the repository, so what it answers is a parameter of the
  model. \<open>Ticker isin\<close> is the handle \<^verbatim>\<open>yf.Ticker(isin)\<close> (building one fetches
  nothing). \<open>ticker_attr B t func\<close> is \<^verbatim>\<open>getattr(t, func)\<close> on such a handle and
  \<open>tickers_history B ts args\<close> is \<^verbatim>\<open>yf.Tickers.history(**args)\<close>; either may raise.
\<close>

datatype ticker = Ticker string

record history_args =
  period :: string
  interval :: string
  start :: "string option"
  end_date :: "string option"
  prepost :: bool
  actions :: bool
  auto_adjust :: bool
  proxy :: "string option"
  threads :: bool
  group_by :: string
  progress :: bool
  kwargs :: "(string, string) pydict"

record 'v backend =
  ticker_attr :: "ticker \<Rightarrow> string \<Rightarrow> error + 'v"
  tickers_history :: "(string, ticker) pydict \<Rightarrow> history_args \<Rightarrow> error + 'v"

text \<open>
  What the parameter \<^verbatim>\<open>tickers\<close> of \<^verbatim>\<open>all_trickers\<close> may be bound to: a plain Python
  dictionary from names to handles, or a \<^verbatim>\<open>yf.Tickers\<close> object, whose attribute
  \<^verbatim>\<open>tickers\<close> holds the handles by name. A plain dictionary has no attribute
  \<^verbatim>\<open>tickers\<close> and no attribute \<^verbatim>\<open>history\<close>.
\<close>

datatype tickers_obj =
    PyDict "(string, ticker) pydict"
  | YfTickers "(string, ticker) pydict"

text \<open>\<^verbatim>\<open>tickers.tickers\<close>\<close>

definition getattr_tickers :: "tickers_obj \<Rightarrow> error + (string, ticker) pydict" where
  "getattr_tickers t =
     (case t of
        PyDict d \<Rightarrow> Inl (AttributeError ''dict'' ''tickers'')
      | YfTickers ns \<Rightarrow> Inr ns)"

text \<open>\<^verbatim>\<open>getattr(tickers.tickers, keyword)\<close>, on the handles of a \<^verbatim>\<open>yf.Tickers\<close>\<close>

definition getattr_handle :: "(string, ticker) pydict \<Rightarrow> string \<Rightarrow> error + ticker" where
  "getattr_handle ns keyword =
     (case dict_get ns keyword of
        None \<Rightarrow> Inl (AttributeError ''Tickers'' keyword)
      | Some t \<Rightarrow> Inr t)"

section \<open>DesignerFinanceCollector\<close>

text \<open>
  The fields of the builder. \<open>df\<close> is \<open>None\<close> for the empty \<^verbatim>\<open>pd.DataFrame()\<close>;
  \<open>priv_product\<close> is \<^verbatim>\<open>self._product\<close>, a reference to a \<^verbatim>\<open>FinanceProduct\<close>.
\<close>

record 'v DesignerFinanceCollector =
  keyword_list :: "string list"
  tickers :: tickers_obj
  df :: "'v option"
  dict :: "(string, 'v) pydict"
  priv_product :: ref

text \<open>
  The dictionary comprehension of \<^verbatim>\<open>all_trickers\<close>,
  \<^verbatim>\<open>{keyword: getattr(getattr(tickers.tickers, keyword), func) for keyword in keyword_list}\<close>:
  the keywords are visited in order, each value expression is evaluated in full (the
  attribute \<^verbatim>\<open>tickers\<close> first) and the first exception ends the loop. \<open>acc\<close> is the
  dictionary built so far.
\<close>

fun all_trickers_loop ::
  "'v backend \<Rightarrow> tickers_obj \<Rightarrow> string \<Rightarrow> string list \<Rightarrow> (string, 'v) pydict
     \<Rightarrow> error + (string, 'v) pydict" where
  "all_trickers_loop B tks func [] acc = Inr acc"
| "all_trickers_loop B tks func (keyword # rest) acc =
     (case getattr_tickers tks of
        Inl e \<Rightarrow> Inl e
      | Inr ns \<Rightarrow>
          (case getattr_handle ns keyword of
             Inl e \<Rightarrow> Inl e
           | Inr t \<Rightarrow>
               (case ticker_attr B t func of
                  Inl e \<Rightarrow> Inl e
                | Inr v \<Rightarrow> all_trickers_loop B tks func rest (dict_setitem keyword v acc))))"

definition all_trickers ::
  "'v backend \<Rightarrow> tickers_obj \<Rightarrow> string list \<Rightarrow> string \<Rightarrow> error + (string, 'v) pydict" where
  "all_trickers B tks keywords func = all_trickers_loop B tks func keywords []"

text \<open>\<^verbatim>\<open>self.dict = <expression>\<close>: nothing is assigned when the expression raises.\<close>

definition assign_dict ::
  "error + (string, 'v) pydict \<Rightarrow> 'v DesignerFinanceCollector \<Rightarrow> error + 'v DesignerFinanceCollector" where
  "assign_dict res self = (case res of Inl e \<Rightarrow> Inl e | Inr d \<Rightarrow> Inr (self\<lparr>dict := d\<rparr>))"

text \<open>
  \<^verbatim>\<open>self.df = self.tickers.history(period=period, ...)\<close>: the attribute \<^verbatim>\<open>history\<close>
  is looked up on \<^verbatim>\<open>self.tickers\<close> first.
\<close>

definition get_chart_history ::
  "'v backend \<Rightarrow> history_args \<Rightarrow> 'v DesignerFinanceCollector \<Rightarrow> error + 'v DesignerFinanceCollector" where
  "get_chart_history B args self =
     (case tickers self of
        PyDict d \<Rightarrow> Inl (AttributeError ''dict'' ''history'')
      | YfTickers ns \<Rightarrow>
          (case tickers_history B ns args of
             Inl e \<Rightarrow> Inl e
           | Inr v \<Rightarrow> Inr (self\<lparr>df := Some v\<rparr>)))"

definition get_isin_code :: "'v backend \<Rightarrow> 'v DesignerFinanceCollector \<Rightarrow> error + 'v DesignerFinanceCollector" where
  "get_isin_code B self = assign_dict (all_trickers B (tickers self) (keyword_list self) ''isin'') self"

definition get_major_holders :: "'v backend \<Rightarrow> 'v DesignerFinanceCollector \<Rightarrow> error + 'v DesignerFinanceCollector" where
  "get_major_holders B self = assign_dict (all_trickers B (tickers self) (keyword_list self) ''major_holders'') self"

definition get_institutional_holders :: "'v backend \<Rightarrow> 'v DesignerFinanceCollector \<Rightarrow> error + 'v DesignerFinanceCollector" where
  "get_institutional_holders B self = assign_dict (all_trickers B (tickers self) (keyword_list self) ''institutional_holders'') self"

definition get_mutualfund_holders :: "'v backend \<Rightarrow> 'v DesignerFinanceCollector \<Rightarrow> error + 'v DesignerFinanceCollector" where
  "get_mutualfund_holders B self = assign_dict (all_trickers B (tickers self) (keyword_list self) ''mutualfund_holders'') self"

definition get_dividends :: "'v backend \<Rightarrow> 'v DesignerFinanceCollector \<Rightarrow> error + 'v DesignerFinanceCollector" where
  "get_dividends B self = assign_dict (all_trickers B (tickers self) (keyword_list self) ''dividends'') self"

definition get_splits :: "'v backend \<Rightarrow> 'v DesignerFinanceCollector \<Rightarrow> error + 'v DesignerFinanceCollector" where
  "get_splits B self = assign_dict (all_trickers B (tickers self) (keyword_list self) ''splits'') self"

definition get_actions :: "'v backend \<Rightarrow> 'v DesignerFinanceCollector \<Rightarrow> error + 'v DesignerFinanceCollector" where
  "get_actions B self = assign_dict (all_trickers B (tickers self) (keyword_list self) ''actions'') self"

definition get_info :: "'v backend \<Rightarrow> 'v DesignerFinanceCollector \<Rightarrow> error + 'v DesignerFinanceCollector" where
  "get_info B self = assign_dict (all_trickers B (tickers self) (keyword_list self) ''info'') self"

definition get_calendar :: "'v backend \<Rightarrow> 'v DesignerFinanceCollector \<Rightarrow> error + 'v DesignerFinanceCollector" where
  "get_calendar B self = assign_dict (all_trickers B (tickers self) (keyword_list self) ''calendar'') self"

definition get_recommendations :: "'v backend \<Rightarrow> 'v DesignerFinanceCollector \<Rightarrow> error + 'v DesignerFinanceCollector" where
  "get_recommendations B self = assign_dict (all_trickers B (tickers self) (keyword_list self) ''recommendations'') self"

definition get_earnings :: "'v backend \<Rightarrow> 'v DesignerFinanceCollector \<Rightarrow> error + 'v DesignerFinanceCollector" where
  "get_earnings B self = assign_dict (all_trickers B (tickers self) (keyword_list self) ''earnings'') self"

definition get_quarterly_earnings :: "'v backend \<Rightarrow> 'v DesignerFinanceCollector \<Rightarrow> error + 'v DesignerFinanceCollector" where
  "get_quarterly_earnings B self = assign_dict (all_trickers B (tickers self) (keyword_list self) ''quarterly_earnings'') self"

definition get_financials :: "'v backend \<Rightarrow> 'v DesignerFinanceCollector \<Rightarrow> error + 'v DesignerFinanceCollector" where
  "get_financials B self = assign_dict (all_trickers B (tickers self) (keyword_list self) ''financials'') self"

definition get_quarterly_financials :: "'v backend \<Rightarrow> 'v DesignerFinanceCollector \<Rightarrow> error + 'v DesignerFinanceCollector" where
  "get_quarterly_financials B self = assign_dict (all_trickers B (tickers self) (keyword_list self) ''quarterly_financials'') self"

definition get_balancesheet :: "'v backend \<Rightarrow> 'v DesignerFinanceCollector \<Rightarrow> error + 'v DesignerFinanceCollector" where
  "get_balancesheet B self = assign_dict (all_trickers B (tickers self) (keyword_list self) ''balancesheet'') self"

definition get_quarterly_balancesheet :: "'v backend \<Rightarrow> 'v DesignerFinanceCollector \<Rightarrow> error + 'v DesignerFinanceCollector" where
  "get_quarterly_balancesheet B self = assign_dict (all_trickers B (tickers self) (keyword_list self) ''quarterly_balancesheet'') self"

definition get_cashflow :: "'v backend \<Rightarrow> 'v DesignerFinanceCollector \<Rightarrow> error + 'v DesignerFinanceCollector" where
  "get_cashflow B self = assign_dict (all_trickers B (tickers self) (keyword_list self) ''cashflow'') self"

definition get_quarterly_cashflow :: "'v backend \<Rightarrow> 'v DesignerFinanceCollector \<Rightarrow> error + 'v DesignerFinanceCollector" where
  "get_quarterly_cashflow B self = assign_dict (all_trickers B (tickers self) (keyword_list self) ''quarterly_cashflow'') self"

definition get_sustainability :: "'v backend \<Rightarrow> 'v DesignerFinanceCollector \<Rightarrow> error + 'v DesignerFinanceCollector" where
  "get_sustainability B self = assign_dict (all_trickers B (tickers self) (keyword_list self) ''sustainability'') self"

definition get_options :: "'v backend \<Rightarrow> 'v DesignerFinanceCollector \<Rightarrow> error + 'v DesignerFinanceCollector" where
  "get_options B self = assign_dict (all_trickers B (tickers self) (keyword_list self) ''options'') self"

section \<open>FinanceCollector\<close>

text \<open>\<open>priv_builder\<close> is \<^verbatim>\<open>self._builder\<close>: \<open>None\<close>, or a reference to a builder.\<close>

record FinanceCollector =
  priv_builder :: "ref option"

section \<open>The heap and the methods on it\<close>

text \<open>
  An object is named by its index in the list of its class; a new object is appended,
  so that its reference is fresh and no existing reference changes its meaning.
\<close>

record ('a, 'v) heap =
  products :: "'a FinanceProduct list"
  builders :: "'v DesignerFinanceCollector list"
  directors :: "FinanceCollector list"

definition empty_heap :: "('a, 'v) heap" where
  "empty_heap = \<lparr>products = [], builders = [], directors = []\<rparr>"

subsection \<open>FinanceProduct\<close>

definition new_FinanceProduct :: "('a, 'v) heap \<Rightarrow> ref \<times> ('a, 'v) heap" where
  "new_FinanceProduct h =
     (length (products h), h\<lparr>products := products h @ [FinanceProduct_init]\<rparr>)"

definition add_product ::
  "ref \<Rightarrow> callable \<Rightarrow> 'a \<Rightarrow> ('a, 'v) heap \<Rightarrow> (error + unit) \<times> ('a, 'v) heap" where
  "add_product self key val h =
     (case lookup (products h) self of
        None \<Rightarrow> (Inl (DanglingReference self), h)
      | Some p \<Rightarrow> (Inr (), h\<lparr>products := (products h)[self := add_product_obj key val p]\<rparr>))"

definition list_product_parts ::
  "ref \<Rightarrow> ('a, 'v) heap \<Rightarrow> (error + string) \<times> ('a, 'v) heap" where
  "list_product_parts self h =
     (case lookup (products h) self of
        None \<Rightarrow> (Inl (DanglingReference self), h)
      | Some p \<Rightarrow> (Inr (list_product_parts_obj p), h))"

definition return_product ::
  "ref \<Rightarrow> ('a, 'v) heap \<Rightarrow> (error + (string, 'a) pydict) \<times> ('a, 'v) heap" where
  "return_product self h =
     (case lookup (products h) self of
        None \<Rightarrow> (Inl (DanglingReference self), h)
      | Some p \<Rightarrow> (Inr (return_product_obj p), h))"

subsection \<open>DesignerFinanceCollector\<close>

text \<open>\<^verbatim>\<open>{str(isin): yf.Ticker(isin) for isin in self.keyword_list}\<close>, a plain dictionary.\<close>

definition ticker_dict :: "string list \<Rightarrow> (string, ticker) pydict" where
  "ticker_dict keywords = foldl (\<lambda>d isin. dict_setitem isin (Ticker isin) d) [] keywords"

text \<open>\<^verbatim>\<open>reset\<close>: \<^verbatim>\<open>self._product = FinanceProduct()\<close>, a new object.\<close>

definition reset :: "ref \<Rightarrow> ('a, 'v) heap \<Rightarrow> (error + unit) \<times> ('a, 'v) heap" where
  "reset self h =
     (case lookup (builders h) self of
        None \<Rightarrow> (Inl (DanglingReference self), h)
      | Some b \<Rightarrow>
          (let (r, h') = new_FinanceProduct h
           in (Inr (), h'\<lparr>builders := (builders h')[self := b\<lparr>priv_product := r\<rparr>]\<rparr>)))"

text \<open>
  \<^verbatim>\<open>__init__\<close>: the four fields are set, then \<^verbatim>\<open>self.reset()\<close> gives the builder its
  first product. The result is the reference of the new builder.
\<close>

definition DesignerFinanceCollector_init ::
  "string list \<Rightarrow> ('a, 'v) heap \<Rightarrow> ref \<times> ('a, 'v) heap" where
  "DesignerFinanceCollector_init keywords h =
     (let (r, h') = new_FinanceProduct h;
          self = \<lparr>keyword_list = keywords, tickers = PyDict (ticker_dict keywords),
                  df = None, dict = [], priv_product = r\<rparr>
      in (length (builders h'), h'\<lparr>builders := builders h' @ [self]\<rparr>))"

text \<open>
  The property \<^verbatim>\<open>stock\<close>: \<^verbatim>\<open>product = self._product; self.reset(); return product\<close>.
  The result is the reference of the product the builder held.
\<close>

definition stock :: "ref \<Rightarrow> ('a, 'v) heap \<Rightarrow> (error + ref) \<times> ('a, 'v) heap" where
  "stock self h =
     (case lookup (builders h) self of
        None \<Rightarrow> (Inl (DanglingReference self), h)
      | Some b \<Rightarrow>
          (let product = priv_product b
           in (case reset self h of
                 (Inl e, h') \<Rightarrow> (Inl e, h')
               | (Inr u, h') \<Rightarrow> (Inr product, h'))))"

text \<open>
  A \<^verbatim>\<open>get_*\<close> method reads and writes fields of the builder only; \<open>on_builder\<close> runs
  it on the builder a reference names and stores the builder it returns. When the
  method raises, the heap is as it was.
\<close>

definition on_builder ::
  "ref \<Rightarrow> ('v DesignerFinanceCollector \<Rightarrow> error + 'v DesignerFinanceCollector)
     \<Rightarrow> ('a, 'v) heap \<Rightarrow> (error + unit) \<times> ('a, 'v) heap" where
  "on_builder self m h =
     (case lookup (builders h) self of
        None \<Rightarrow> (Inl (DanglingReference self), h)
      | Some b \<Rightarrow>
          (case m b of
             Inl e \<Rightarrow> (Inl e, h)
           | Inr b' \<Rightarrow> (Inr (), h\<lparr>builders := (builders h)[self := b']\<rparr>)))"

subsection \<open>FinanceCollector\<close>

text \<open>\<^verbatim>\<open>__init__\<close>: \<^verbatim>\<open>self._builder = None\<close>.\<close>

definition FinanceCollector_init :: "('a, 'v) heap \<Rightarrow> ref \<times> ('a, 'v) heap" where
  "FinanceCollector_init h =
     (length (directors h), h\<lparr>directors := directors h @ [\<lparr>priv_builder = None\<rparr>]\<rparr>)"

text \<open>The property \<^verbatim>\<open>builder\<close> and its setter.\<close>

definition builder :: "ref \<Rightarrow> ('a, 'v) heap \<Rightarrow> (error + ref option) \<times> ('a, 'v) heap" where
  "builder self h =
     (case lookup (directors h) self of
        None \<Rightarrow> (Inl (DanglingReference self), h)
      | Some d \<Rightarrow> (Inr (priv_builder d), h))"

definition builder_setter ::
  "ref \<Rightarrow> ref option \<Rightarrow> ('a, 'v) heap \<Rightarrow> (error + unit) \<times> ('a, 'v) heap" where
  "builder_setter self b h =
     (case lookup (directors h) self of
        None \<Rightarrow> (Inl (DanglingReference self), h)
      | Some d \<Rightarrow> (Inr (), h\<lparr>directors := (directors h)[self := d\<lparr>priv_builder := b\<rparr>]\<rparr>))"

text \<open>
  \<^verbatim>\<open>self.builder.get_x(...)\<close>: the property is read, the method \<open>meth\<close> is looked up
  on its value (\<^verbatim>\<open>None\<close> has no such attribute) and called.
\<close>

definition forward ::
  "ref \<Rightarrow> string \<Rightarrow> ('v DesignerFinanceCollector \<Rightarrow> error + 'v DesignerFinanceCollector)
     \<Rightarrow> ('a, 'v) heap \<Rightarrow> (error + unit) \<times> ('a, 'v) heap" where
  "forward self meth m h =
     (case builder self h of
        (Inl e, h') \<Rightarrow> (Inl e, h')
      | (Inr None, h') \<Rightarrow> (Inl (AttributeError ''NoneType'' meth), h')
      | (Inr (Some b), h') \<Rightarrow> on_builder b m h')"

text \<open>The default arguments of \<^verbatim>\<open>find_chart_histogram\<close>.\<close>

definition default_history_args :: history_args where
  "default_history_args =
     \<lparr>period = ''1mo'', interval = ''1d'', start = None, end_date = None, prepost = False,
      actions = True, auto_adjust = True, proxy = None, threads = True,
      group_by = ''column'', progress = True, kwargs = []\<rparr>"

definition find_chart_histogram ::
  "'v backend \<Rightarrow> history_args \<Rightarrow> ref \<Rightarrow> ('a, 'v) heap \<Rightarrow> (error + unit) \<times> ('a, 'v) heap" where
  "find_chart_histogram B args self h =
     forward self ''get_chart_history'' (get_chart_history B args) h"

definition find_isin_code :: "'v backend \<Rightarrow> ref \<Rightarrow> ('a, 'v) heap \<Rightarrow> (error + unit) \<times> ('a, 'v) heap" where
  "find_isin_code B self h = forward self ''get_isin_code'' (get_isin_code B) h"

definition find_major_holders :: "'v backend \<Rightarrow> ref \<Rightarrow> ('a, 'v) heap \<Rightarrow> (error + unit) \<times> ('a, 'v) heap" where
  "find_major_holders B self h = forward self ''get_major_holders'' (get_major_holders B) h"

definition find_institutional_holders :: "'v backend \<Rightarrow> ref \<Rightarrow> ('a, 'v) heap \<Rightarrow> (error + unit) \<times> ('a, 'v) heap" where
  "find_institutional_holders B self h = forward self ''get_institutional_holders'' (get_institutional_holders B) h"

definition find_mutualfund_holders :: "'v backend \<Rightarrow> ref \<Rightarrow> ('a, 'v) heap \<Rightarrow> (error + unit) \<times> ('a, 'v) heap" where
  "find_mutualfund_holders B self h = forward self ''get_mutualfund_holders'' (get_mutualfund_holders B) h"

definition find_dividends :: "'v backend \<Rightarrow> ref \<Rightarrow> ('a, 'v) heap \<Rightarrow> (error + unit) \<times> ('a, 'v) heap" where
  "find_dividends B self h = forward self ''get_dividends'' (get_dividends B) h"

definition find_splits :: "'v backend \<Rightarrow> ref \<Rightarrow> ('a, 'v) heap \<Rightarrow> (error + unit) \<times> ('a, 'v) heap" where
  "find_splits B self h = forward self ''get_splits'' (get_splits B) h"

definition find_actions :: "'v backend \<Rightarrow> ref \<Rightarrow> ('a, 'v) heap \<Rightarrow> (error + unit) \<times> ('a, 'v) heap" where
  "find_actions B self h = forward self ''get_actions'' (get_actions B) h"

definition find_info :: "'v backend \<Rightarrow> ref \<Rightarrow> ('a, 'v) heap \<Rightarrow> (error + unit) \<times> ('a, 'v) heap" where
  "find_info B self h = forward self ''get_info'' (get_info B) h"

definition find_calendar :: "'v backend \<Rightarrow> ref \<Rightarrow> ('a, 'v) heap \<Rightarrow> (error + unit) \<times> ('a, 'v) heap" where
  "find_calendar B self h = forward self ''get_calendar'' (get_calendar B) h"

definition find_recommendations :: "'v backend \<Rightarrow> ref \<Rightarrow> ('a, 'v) heap \<Rightarrow> (error + unit) \<times> ('a, 'v) heap" where
  "find_recommendations B self h = forward self ''get_recommendations'' (get_recommendations B) h"

definition find_earnings :: "'v backend \<Rightarrow> ref \<Rightarrow> ('a, 'v) heap \<Rightarrow> (error + unit) \<times> ('a, 'v) heap" where
  "find_earnings B self h = forward self ''get_earnings'' (get_earnings B) h"

definition find_quarterly_earnings :: "'v backend \<Rightarrow> ref \<Rightarrow> ('a, 'v) heap \<Rightarrow> (error + unit) \<times> ('a, 'v) heap" where
  "find_quarterly_earnings B self h = forward self ''get_quarterly_earnings'' (get_quarterly_earnings B) h"

definition find_financials :: "'v backend \<Rightarrow> ref \<Rightarrow> ('a, 'v) heap \<Rightarrow> (error + unit) \<times> ('a, 'v) heap" where
  "find_financials B self h = forward self ''get_financials'' (get_financials B) h"

definition find_quarterly_financials :: "'v backend \<Rightarrow> ref \<Rightarrow> ('a, 'v) heap \<Rightarrow> (error + unit) \<times> ('a, 'v) heap" where
  "find_quarterly_financials B self h = forward self ''get_quarterly_financials'' (get_quarterly_financials B) h"

definition find_balancesheet :: "'v backend \<Rightarrow> ref \<Rightarrow> ('a, 'v) heap \<Rightarrow> (error + unit) \<times> ('a, 'v) heap" where
  "find_balancesheet B self h = forward self ''get_balancesheet'' (get_balancesheet B) h"

definition find_quarterly_balancesheet :: "'v backend \<Rightarrow> ref \<Rightarrow> ('a, 'v) heap \<Rightarrow> (error + unit) \<times> ('a, 'v) heap" where
  "find_quarterly_balancesheet B self h = forward self ''get_quarterly_balancesheet'' (get_quarterly_balancesheet B) h"

definition find_cashflow :: "'v backend \<Rightarrow> ref \<Rightarrow> ('a, 'v) heap \<Rightarrow> (error + unit) \<times> ('a, 'v) heap" where
  "find_cashflow B self h = forward self ''get_cashflow'' (get_cashflow B) h"

definition find_quarterly_cashflow :: "'v backend \<Rightarrow> ref \<Rightarrow> ('a, 'v) heap \<Rightarrow> (error + unit) \<times> ('a, 'v) heap" where
  "find_quarterly_cashflow B self h = forward self ''get_quarterly_cashflow'' (get_quarterly_cashflow B) h"

definition find_sustainability :: "'v backend \<Rightarrow> ref \<Rightarrow> ('a, 'v) heap \<Rightarrow> (error + unit) \<times> ('a, 'v) heap" where
  "find_sustainability B self h = forward self ''get_sustainability'' (get_sustainability B) h"

definition find_options :: "'v backend \<Rightarrow> ref \<Rightarrow> ('a, 'v) heap \<Rightarrow> (error + unit) \<times> ('a, 'v) heap" where
  "find_options B self h = forward self ''get_options'' (get_options B) h"

subsection \<open>Calls by name\<close>

text \<open>
  The twenty-one capabilities, to speak about any call of a \<^verbatim>\<open>get_*\<close> or a
  \<^verbatim>\<open>find_*\<close> method, and about sequences of calls.
\<close>

datatype capability =
    Chart_history history_args
  | Isin_code
  | Major_holders
  | Institutional_holders
  | Mutualfund_holders
  | Dividends
  | Splits
  | Actions
  | Info
  | Calendar
  | Recommendations
  | Earnings
  | Quarterly_earnings
  | Financials
  | Quarterly_financials
  | Balancesheet
  | Quarterly_balancesheet
  | Cashflow
  | Quarterly_cashflow
  | Sustainability
  | Options

fun call_get ::
  "'v backend \<Rightarrow> capability \<Rightarrow> 'v DesignerFinanceCollector \<Rightarrow> error + 'v DesignerFinanceCollector" where
  "call_get B (Chart_history args) = get_chart_history B args"
| "call_get B Isin_code = get_isin_code B"
| "call_get B Major_holders = get_major_holders B"
| "call_get B Institutional_holders = get_institutional_holders B"
| "call_get B Mutualfund_holders = get_mutualfund_holders B"
| "call_get B Dividends = get_dividends B"
| "call_get B Splits = get_splits B"
| "call_get B Actions = get_actions B"
| "call_get B Info = get_info B"
| "call_get B Calendar = get_calendar B"
| "call_get B Recommendations = get_recommendations B"
| "call_get B Earnings = get_earnings B"
| "call_get B Quarterly_earnings = get_quarterly_earnings B"
| "call_get B Financials = get_financials B"
| "call_get B Quarterly_financials = get_quarterly_financials B"
| "call_get B Balancesheet = get_balancesheet B"
| "call_get B Quarterly_balancesheet = get_quarterly_balancesheet B"
| "call_get B Cashflow = get_cashflow B"
| "call_get B Quarterly_cashflow = get_quarterly_cashflow B"
| "call_get B Sustainability = get_sustainability B"
| "call_get B Options = get_options B"

fun call_find ::
  "'v backend \<Rightarrow> capability \<Rightarrow> ref \<Rightarrow> ('a, 'v) heap \<Rightarrow> (error + unit) \<times> ('a, 'v) heap" where
  "call_find B (Chart_history args) = find_chart_histogram B args"
| "call_find B Isin_code = find_isin_code B"
| "call_find B Major_holders = find_major_holders B"
| "call_find B Institutional_holders = find_institutional_holders B"
| "call_find B Mutualfund_holders = find_mutualfund_holders B"
| "call_find B Dividends = find_dividends B"
| "call_find B Splits = find_splits B"
| "call_find B Actions = find_actions B"
| "call_find B Info = find_info B"
| "call_find B Calendar = find_calendar B"
| "call_find B Recommendations = find_recommendations B"
| "call_find B Earnings = find_earnings B"
| "call_find B Quarterly_earnings = find_quarterly_earnings B"
| "call_find B Financials = find_financials B"
| "call_find B Quarterly_financials = find_quarterly_financials B"
| "call_find B Balancesheet = find_balancesheet B"
| "call_find B Quarterly_balancesheet = find_quarterly_balancesheet B"
| "call_find B Cashflow = find_cashflow B"
| "call_find B Quarterly_cashflow = find_quarterly_cashflow B"
| "call_find B Sustainability = find_sustainability B"
| "call_find B Options = find_options B"

text \<open>
  What a caller can do with a builder: call one of its \<^verbatim>\<open>get_*\<close> methods, read
  \<^verbatim>\<open>stock\<close>, or call \<^verbatim>\<open>reset\<close>. A caller that catches an exception goes on with
  the next call, so a sequence runs to its end and only the heap is kept.
\<close>

datatype builder_op = Get capability | Stock | Reset

fun builder_step ::
  "'v backend \<Rightarrow> ref \<Rightarrow> builder_op \<Rightarrow> ('a, 'v) heap \<Rightarrow> ('a, 'v) heap" where
  "builder_step B self (Get c) h = snd (on_builder self (call_get B c) h)"
| "builder_step B self Stock h = snd (stock self h)"
| "builder_step B self Reset h = snd (reset self h)"

definition builder_run ::
  "'v backend \<Rightarrow> ref \<Rightarrow> builder_op list \<Rightarrow> ('a, 'v) heap \<Rightarrow> ('a, 'v) heap" where
  "builder_run B self ops h = foldl (\<lambda>h' op. builder_step B self op h') h ops"

text \<open>A sequence of \<^verbatim>\<open>add_product\<close> calls on one product.\<close>

definition add_all ::
  "ref \<Rightarrow> (callable \<times> 'a) list \<Rightarrow> ('a, 'v) heap \<Rightarrow> ('a, 'v) heap" where
  "add_all self kvs h = foldl (\<lambda>h' (key, val). snd (add_product self key val h')) h kvs"

section \<open>The staged AutoML pipeline\<close>

text \<open>
  Modelled from the spec: the stages of the staged-execution context. The module
  \<^verbatim>\<open>ai2business/ai_engines/automl_neural_network.py\<close> is not among the sources, only
  its test \<^verbatim>\<open>test_automl_benchmark.py\<close> is. A stage is one of configure-task, fit,
  evaluate, predict, save and load.
\<close>

datatype stage = Configure_task | Fit | Evaluate | Predict | Save | Load

text \<open>
  Modelled from the spec: the logical name under which a stage's result is stored in the
  shared results mapping, one of \<^verbatim>\<open>"model"\<close>, \<^verbatim>\<open>"prediction"\<close> and \<^verbatim>\<open>"evaluation"\<close>.
  That configure-task stores a \<^verbatim>\<open>"model"\<close> is what \<^verbatim>\<open>test_multi_model\<close> reads after
  that stage alone; no name is given for save and load, which act on files.
\<close>

fun stage_key :: "stage \<Rightarrow> string option" where
  "stage_key Configure_task = Some ''model''"
| "stage_key Fit = Some ''model''"
| "stage_key Evaluate = Some ''evaluation''"
| "stage_key Predict = Some ''prediction''"
| "stage_key Save = None"
| "stage_key Load = None"

text \<open>
  Modelled from the spec: the context \<^verbatim>\<open>AutoMLPipeline\<close>, which holds the current stage
  (\<^verbatim>\<open>context.train\<close> in the test) and the shared results mapping. A name that is bound
  in the mapping has a value, an unbound one has none.
\<close>

record 'r AutoMLPipeline =
  train :: stage
  automl_model :: "(string, 'r) pydict"

text \<open>
  Modelled from the spec: the AutoML framework behind the stages, a parameter. It
  computes the result of a stage from the results so far, or fails.
\<close>

type_synonym 'r engine = "stage \<Rightarrow> (string, 'r) pydict \<Rightarrow> error + 'r"

text \<open>Modelled from the spec: constructing the context on its first stage, with no results.\<close>

definition AutoMLPipeline_init :: "stage \<Rightarrow> 'r AutoMLPipeline" where
  "AutoMLPipeline_init st = \<lparr>train = st, automl_model = []\<rparr>"

text \<open>Modelled from the spec: assigning a new stage object, \<^verbatim>\<open>context.train = ...\<close>.\<close>

definition train_setter :: "stage \<Rightarrow> 'r AutoMLPipeline \<Rightarrow> 'r AutoMLPipeline" where
  "train_setter st ctx = ctx\<lparr>train := st\<rparr>"

text \<open>
  Modelled from the spec: \<^verbatim>\<open>run_automl\<close>, the single generic run method. It dispatches
  on the current stage and stores the stage's result under the stage's name. A failing
  stage is fatal to this call only: the results stored before stay as they are.
\<close>

definition run_automl ::
  "'r engine \<Rightarrow> 'r AutoMLPipeline \<Rightarrow> (error + unit) \<times> 'r AutoMLPipeline" where
  "run_automl E ctx =
     (case E (train ctx) (automl_model ctx) of
        Inl e \<Rightarrow> (Inl e, ctx)
      | Inr v \<Rightarrow>
          (Inr (),
           (case stage_key (train ctx) of
              None \<Rightarrow> ctx
            | Some k \<Rightarrow> ctx\<lparr>automl_model := dict_setitem k v (automl_model ctx)\<rparr>)))"

text \<open>
  Modelled from the spec: reading one result by its name, \<^verbatim>\<open>context.return_automl[key]\<close>.
  The read does not drain the mapping.
\<close>

definition return_automl ::
  "string \<Rightarrow> 'r AutoMLPipeline \<Rightarrow> 'r option \<times> 'r AutoMLPipeline" where
  "return_automl key ctx = (dict_get (automl_model ctx) key, ctx)"

section \<open>Example objects\<close>

text \<open>A backend that answers every attribute and has no history.\<close>

definition example_backend :: "nat backend" where
  "example_backend =
     \<lparr>ticker_attr = (\<lambda>t func. case t of Ticker isin \<Rightarrow> Inr (length isin + length func)),
      tickers_history = (\<lambda>ns args. Inl (BackendError ''offline''))\<rparr>"

text \<open>
  A director, two builders, the first one installed, and two results added by hand to
  the product of the first builder.
\<close>

definition example_heap :: "(nat, nat) heap" where
  "example_heap =
     (let (d, h0) = FinanceCollector_init empty_heap;
          (b0, h1) = DesignerFinanceCollector_init [''AAPL'', ''MSFT''] h0;
          (b1, h2) = DesignerFinanceCollector_init [''TSLA''] h1;
          h3 = snd (builder_setter d (Some b0) h2)
      in add_all (priv_product (builders h3 ! b0))
           [(\<lparr>ident = 1, name = ''get_splits''\<rparr>, 1), (\<lparr>ident = 2, name = ''get_actions''\<rparr>, 2)] h3)"

definition example_builder :: "nat DesignerFinanceCollector" where
  "example_builder =
     \<lparr>keyword_list = [''AAPL'', ''MSFT''],
      tickers = PyDict [(''AAPL'', Ticker ''AAPL''), (''MSFT'', Ticker ''MSFT'')],
      df = None, dict = [], priv_product = 0\<rparr>"

definition example_product :: "nat FinanceProduct" where
  "example_product = \<lparr>product_parts = [(''get_splits'', 1), (''get_actions'', 2)]\<rparr>"

text \<open>A heap with one builder that has collected nothing yet.\<close>

definition fresh_heap :: "(nat, nat) heap" where
  "fresh_heap = snd (DesignerFinanceCollector_init [''AAPL'', ''MSFT''] empty_heap)"

text \<open>
  An engine for the staged pipeline: fitting, evaluating and predicting need a model
  and fail without one.
\<close>

definition example_engine :: "nat engine" where
  "example_engine st res =
     (case st of
        Configure_task \<Rightarrow> Inr 1
      | Save \<Rightarrow> Inr 0
      | Load \<Rightarrow> Inr 0
      | _ \<Rightarrow>
          (case dict_get res ''model'' of
             None \<Rightarrow> Inl (BackendError ''no model'')
           | Some m \<Rightarrow> Inr (m + (case st of Fit \<Rightarrow> 1 | Evaluate \<Rightarrow> 10 | _ \<Rightarrow> 100))))"

definition example_context :: "nat AutoMLPipeline" where
  "example_context = snd (run_automl example_engine (AutoMLPipeline_init Configure_task))"

section \<open>Facts about dictionaries and references\<close>

lemma map_of_dict_setitem: "map_of (dict_setitem k v d) = (map_of d)(k \<mapsto> v)"
  by (induction d) (auto simp: fun_eq_iff)

lemma keys_dict_setitem:
  "map fst (dict_setitem k v d) = (if k \<in> set (map fst d) then map fst d else map fst d @ [k])"
  by (induction d) auto

lemma distinct_dict_setitem:
  "distinct (map fst d) \<Longrightarrow> distinct (map fst (dict_setitem k v d))"
  by (simp add: keys_dict_setitem)

lemma dict_setitem_twice: "dict_setitem k w (dict_setitem k v d) = dict_setitem k w d"
  by (induction d) auto

lemma dict_get_setitem: "dict_get (dict_setitem k v d) k' = (if k' = k then Some v else dict_get d k')"
  by (simp add: dict_get_def map_of_dict_setitem)

text \<open>\<^verbatim>\<open>sep.join(xs)\<close> is the first string, then every further string after a separator.\<close>

lemma str_join_concat:
  "str_join sep xs = (case xs of [] \<Rightarrow> [] | x # ys \<Rightarrow> x @ concat (map (\<lambda>y. sep @ y) ys))"
  by (induction sep xs rule: str_join.induct) simp_all

lemma lookup_append_old: "r < length xs \<Longrightarrow> lookup (xs @ ys) r = lookup xs r"
  by (simp add: lookup_def nth_append)

lemma lookup_append_new: "lookup (xs @ [y]) (length xs) = Some y"
  by (simp add: lookup_def)

lemma lookup_SomeD: "lookup xs r = Some x \<Longrightarrow> r < length xs \<and> xs ! r = x"
  by (auto simp: lookup_def split: if_splits)

lemma lookup_update: "lookup (xs[r := y]) r' = (if r' = r \<and> r < length xs then Some y else lookup xs r')"
  by (auto simp: lookup_def)

lemma lookup_prefix: "prefix xs ys \<Longrightarrow> lookup xs r = Some x \<Longrightarrow> lookup ys r = Some x"
  by (auto simp: prefix_def lookup_def nth_append split: if_splits)

section \<open>Facts about the methods\<close>

text \<open>A sequence of adds on the heap is the sequence of adds on the object.\<close>

lemma add_product_heap:
  "lookup (products h) r = Some p \<Longrightarrow>
   add_product r key val h = (Inr (), h\<lparr>products := (products h)[r := add_product_obj key val p]\<rparr>)"
  by (simp add: add_product_def)

lemma add_all_heap:
  "lookup (products h) r = Some p \<Longrightarrow>
   add_all r kvs h = h\<lparr>products := (products h)[r := add_all_obj kvs p]\<rparr>"
proof (induction kvs arbitrary: h p)
  case Nil
  then show ?case
    by (auto simp: add_all_def add_all_obj_def dest!: lookup_SomeD)
next
  case (Cons kv kvs)
  obtain key val where kv: "kv = (key, val)" by (cases kv)
  let ?h = "h\<lparr>products := (products h)[r := add_product_obj key val p]\<rparr>"
  from Cons.prems have lk: "lookup (products ?h) r = Some (add_product_obj key val p)"
    by (auto simp: lookup_update dest: lookup_SomeD)
  have "add_all r (kv # kvs) h = add_all r kvs ?h"
    using Cons.prems by (simp add: add_all_def kv add_product_heap)
  also have "\<dots> = ?h\<lparr>products := (products ?h)[r := add_all_obj kvs (add_product_obj key val p)]\<rparr>"
    by (rule Cons.IH [OF lk])
  finally show ?case
    by (simp add: add_all_obj_def kv)
qed

lemma lookup_products_add_all:
  "lookup (products h) r = Some p \<Longrightarrow>
   lookup (products (add_all r kvs h)) r' =
     (if r' = r then Some (add_all_obj kvs p) else lookup (products h) r')"
  by (auto simp: add_all_heap lookup_update dest: lookup_SomeD)

lemma add_all_obj_snoc:
  "add_all_obj (kvs @ [(key, val)]) p = add_product_obj key val (add_all_obj kvs p)"
  by (simp add: add_all_obj_def)

text \<open>
  After any sequence of adds on an empty product, the keys stand in the order of their
  first insertion, every key holds the value of its last add, and no key occurs twice.
\<close>

lemma keys_add_all_obj:
  "dict_keys (product_parts (add_all_obj kvs FinanceProduct_init)) =
   rev (remdups (rev (map (\<lambda>kv. name (fst kv)) kvs)))"
proof (induction kvs rule: rev_induct)
  case Nil
  then show ?case by (simp add: add_all_obj_def FinanceProduct_init_def dict_keys_def)
next
  case (snoc kv kvs)
  obtain key val where kv: "kv = (key, val)" by (cases kv)
  from snoc have "set (dict_keys (product_parts (add_all_obj kvs FinanceProduct_init))) =
      set (map (\<lambda>kv. name (fst kv)) kvs)"
    by simp
  with snoc show ?case
    by (auto simp: kv add_all_obj_snoc add_product_obj_def dict_keys_def keys_dict_setitem)
qed

lemma map_of_add_all_obj:
  "map_of (product_parts (add_all_obj kvs FinanceProduct_init)) =
   map_of (rev (map (\<lambda>kv. (name (fst kv), snd kv)) kvs))"
proof (induction kvs rule: rev_induct)
  case Nil
  then show ?case by (simp add: add_all_obj_def FinanceProduct_init_def)
next
  case (snoc kv kvs)
  obtain key val where kv: "kv = (key, val)" by (cases kv)
  from snoc show ?case
    by (simp add: kv add_all_obj_snoc add_product_obj_def map_of_dict_setitem fun_eq_iff)
qed

lemma distinct_add_all_obj:
  "distinct (map fst (product_parts (add_all_obj kvs FinanceProduct_init)))"
proof (induction kvs rule: rev_induct)
  case Nil
  then show ?case by (simp add: add_all_obj_def FinanceProduct_init_def)
next
  case (snoc kv kvs)
  obtain key val where kv: "kv = (key, val)" by (cases kv)
  from snoc show ?case
    by (simp add: kv add_all_obj_snoc add_product_obj_def distinct_dict_setitem)
qed

text \<open>What \<^verbatim>\<open>stock\<close>, \<^verbatim>\<open>return_product\<close> and \<^verbatim>\<open>__init__\<close> compute.\<close>

lemma stock_heap:
  "lookup (builders h) b = Some bd \<Longrightarrow>
   stock b h =
     (Inr (priv_product bd),
      h\<lparr>products := products h @ [FinanceProduct_init],
        builders := (builders h)[b := bd\<lparr>priv_product := length (products h)\<rparr>]\<rparr>)"
  by (simp add: stock_def reset_def new_FinanceProduct_def)

lemma return_product_heap:
  "lookup (products h) r = Some p \<Longrightarrow> return_product r h = (Inr (product_parts p), h)"
  by (simp add: return_product_def return_product_obj_def)

lemma init_builder:
  "DesignerFinanceCollector_init kws h =
    (length (builders h),
     h\<lparr>products := products h @ [FinanceProduct_init],
       builders := builders h @ [\<lparr>keyword_list = kws, tickers = PyDict (ticker_dict kws),
          df = None, dict = [], priv_product = length (products h)\<rparr>]\<rparr>)"
  by (simp add: DesignerFinanceCollector_init_def new_FinanceProduct_def)

lemma stock_twice:
  fixes h :: "('a, 'v) heap"
  assumes b: "lookup (builders h) b = Some bd"
    and p: "lookup (products h) (priv_product bd) = Some p"
  shows "\<exists>h1 h2.
     stock b h = (Inr (priv_product bd), h1) \<and>
     lookup (products h1) (priv_product bd) = Some p \<and>
     lookup (builders h1) b = Some (bd\<lparr>priv_product := length (products h)\<rparr>) \<and>
     lookup (products h1) (length (products h)) = Some FinanceProduct_init \<and>
     stock b h1 = (Inr (length (products h)), h2) \<and>
     lookup (products h2) (length (products h)) = Some FinanceProduct_init \<and>
     lookup (products h2) (priv_product bd) = Some p"
proof -
  let ?n = "length (products h)"
  let ?bd1 = "bd\<lparr>priv_product := ?n\<rparr>"
  let ?h1 = "h\<lparr>products := products h @ [FinanceProduct_init],
        builders := (builders h)[b := ?bd1]\<rparr>"
  let ?h2 = "?h1\<lparr>products := products ?h1 @ [FinanceProduct_init],
        builders := (builders ?h1)[b := ?bd1\<lparr>priv_product := length (products ?h1)\<rparr>]\<rparr>"
  from p have lt: "priv_product bd < ?n" by (simp add: lookup_SomeD)
  have s1: "stock b h = (Inr (priv_product bd), ?h1)"
    by (rule stock_heap [OF b])
  have old: "lookup (products ?h1) (priv_product bd) = Some p"
    using p lt by (simp add: lookup_append_old)
  have b1: "lookup (builders ?h1) b = Some ?bd1"
    using b by (auto simp: lookup_update dest: lookup_SomeD)
  have new: "lookup (products ?h1) ?n = Some FinanceProduct_init"
    by (simp add: lookup_append_new)
  have s2: "stock b ?h1 = (Inr ?n, ?h2)"
    using stock_heap [OF b1] by simp
  have new2: "lookup (products ?h2) ?n = Some FinanceProduct_init"
    by (simp add: lookup_def nth_append)
  have old2: "lookup (products ?h2) (priv_product bd) = Some p"
    using p lt by (auto simp: lookup_def nth_append)
  from s1 old b1 new s2 new2 old2 show ?thesis
    by blast
qed

text \<open>
  No \<^verbatim>\<open>get_*\<close> and no \<^verbatim>\<open>find_*\<close> method changes the list of products: whatever the
  backend answers, none of them calls \<^verbatim>\<open>add_product\<close>. \<^verbatim>\<open>reset\<close> and \<^verbatim>\<open>stock\<close> only
  append a new product.
\<close>

lemma on_builder_products: "products (snd (on_builder b m h)) = products h"
  by (simp add: on_builder_def split: option.splits sum.splits)

lemma call_find_products: "products (snd (call_find B c d h)) = products h"
  by (cases c)
    (simp_all add: forward_def builder_def on_builder_products
      find_chart_histogram_def find_isin_code_def
      find_major_holders_def find_institutional_holders_def find_mutualfund_holders_def
      find_dividends_def find_splits_def find_actions_def find_info_def find_calendar_def
      find_recommendations_def find_earnings_def find_quarterly_earnings_def
      find_financials_def find_quarterly_financials_def find_balancesheet_def
      find_quarterly_balancesheet_def find_cashflow_def find_quarterly_cashflow_def
      find_sustainability_def find_options_def split: option.splits)

lemma reset_products: "prefix (products h) (products (snd (reset b h)))"
  by (simp add: reset_def new_FinanceProduct_def split: option.splits)

lemma stock_products: "prefix (products h) (products (snd (stock b h)))"
  by (simp add: stock_def reset_def new_FinanceProduct_def split: option.splits)

lemma builder_step_products: "prefix (products h) (products (builder_step B b op h))"
  by (cases op) (simp_all add: on_builder_products reset_products stock_products)

lemma builder_run_products: "prefix (products h) (products (builder_run B b ops h))"
proof (induction ops arbitrary: h)
  case Nil
  then show ?case by (simp add: builder_run_def)
next
  case (Cons op ops)
  have "prefix (products h) (products (builder_step B b op h))"
    by (rule builder_step_products)
  also have "prefix \<dots> (products (builder_run B b ops (builder_step B b op h)))"
    by (rule Cons.IH)
  finally show ?case by (simp add: builder_run_def)
qed

text \<open>
  The fan-out helper on its two kinds of argument. On a plain dictionary it raises at the
  first keyword. On a \<^verbatim>\<open>yf.Tickers\<close> object that resolves every keyword, with a backend
  that answers the attribute for each of them, it returns one entry per keyword, holding
  what the backend answered.
\<close>

lemma all_trickers_PyDict:
  "all_trickers B (PyDict d) (k # ks) func = Inl (AttributeError ''dict'' ''tickers'')"
  by (simp add: all_trickers_def getattr_tickers_def)

lemma all_trickers_loop_YfTickers:
  assumes "\<forall>k\<in>set kws. \<exists>t v. dict_get ns k = Some t \<and> ticker_attr B t func = Inr v"
  shows "\<exists>d. all_trickers_loop B (YfTickers ns) func kws acc = Inr d \<and>
     set (dict_keys d) = set (dict_keys acc) \<union> set kws \<and>
     (distinct (dict_keys acc) \<longrightarrow> distinct (dict_keys d)) \<and>
     (\<forall>k\<in>set kws. \<exists>t v. dict_get ns k = Some t \<and> ticker_attr B t func = Inr v \<and>
        dict_get d k = Some v) \<and>
     (\<forall>k. k \<notin> set kws \<longrightarrow> dict_get d k = dict_get acc k)"
  using assms
proof (induction kws arbitrary: acc)
  case Nil
  then show ?case by simp
next
  case (Cons k rest)
  from Cons.prems obtain t v where tv: "dict_get ns k = Some t" "ticker_attr B t func = Inr v"
    by auto
  let ?acc = "dict_setitem k v acc"
  from Cons.prems have "\<forall>k\<in>set rest. \<exists>t v. dict_get ns k = Some t \<and> ticker_attr B t func = Inr v"
    by simp
  from Cons.IH [OF this, of ?acc] obtain d where
    d: "all_trickers_loop B (YfTickers ns) func rest ?acc = Inr d"
      "set (dict_keys d) = set (dict_keys ?acc) \<union> set rest"
      "distinct (dict_keys ?acc) \<longrightarrow> distinct (dict_keys d)"
      "\<forall>k\<in>set rest. \<exists>t v. dict_get ns k = Some t \<and> ticker_attr B t func = Inr v \<and>
        dict_get d k = Some v"
      "\<forall>k. k \<notin> set rest \<longrightarrow> dict_get d k = dict_get ?acc k"
    by blast
  have run: "all_trickers_loop B (YfTickers ns) func (k # rest) acc = Inr d"
    using tv d(1) by (simp add: getattr_tickers_def getattr_handle_def)
  have keys: "set (dict_keys d) = set (dict_keys acc) \<union> set (k # rest)"
    using d(2) by (auto simp: dict_keys_def keys_dict_setitem)
  have dist: "distinct (dict_keys acc) \<longrightarrow> distinct (dict_keys d)"
    using d(3) by (simp add: dict_keys_def distinct_dict_setitem)
  have here: "dict_get ?acc k = Some v"
    by (simp add: dict_get_def map_of_dict_setitem)
  have vals: "\<forall>k'\<in>set (k # rest). \<exists>t v. dict_get ns k' = Some t \<and> ticker_attr B t func = Inr v \<and>
        dict_get d k' = Some v"
  proof
    fix k' assume "k' \<in> set (k # rest)"
    show "\<exists>t v. dict_get ns k' = Some t \<and> ticker_attr B t func = Inr v \<and> dict_get d k' = Some v"
    proof (cases "k' \<in> set rest")
      case True
      with d(4) show ?thesis by blast
    next
      case False
      with \<open>k' \<in> set (k # rest)\<close> have "k' = k" by simp
      with False d(5) here tv show ?thesis by simp
    qed
  qed
  have other: "\<forall>k'. k' \<notin> set (k # rest) \<longrightarrow> dict_get d k' = dict_get acc k'"
    using d(5) by (simp add: dict_get_def map_of_dict_setitem)
  from run keys dist vals other show ?case by blast
qed

lemma all_trickers_YfTickers:
  assumes "\<forall>k\<in>set kws. \<exists>t v. dict_get ns k = Some t \<and> ticker_attr B t func = Inr v"
  shows "\<exists>d. all_trickers B (YfTickers ns) kws func = Inr d \<and>
     set (dict_keys d) = set kws \<and> distinct (dict_keys d) \<and>
     (\<forall>k\<in>set kws. \<exists>t v. dict_get ns k = Some t \<and> ticker_attr B t func = Inr v \<and>
        dict_get d k = Some v)"
  using all_trickers_loop_YfTickers [OF assms, of "[]"]
  by (auto simp: all_trickers_def dict_keys_def)

text \<open>The example objects, evaluated.\<close>

lemmas eval_defs = FinanceCollector_init_def init_builder empty_heap_def builder_setter_def
  lookup_def ticker_dict_def add_all_def add_product_def add_product_obj_def
  FinanceProduct_init_def

lemma example_heap_eq:
  "example_heap =
     \<lparr>products = [example_product, \<lparr>product_parts = []\<rparr>],
      builders = [example_builder,
        \<lparr>keyword_list = [''TSLA''], tickers = PyDict [(''TSLA'', Ticker ''TSLA'')],
         df = None, dict = [], priv_product = 1\<rparr>],
      directors = [\<lparr>priv_builder = Some 0\<rparr>]\<rparr>"
  by (simp add: example_heap_def example_product_def example_builder_def eval_defs)

lemma fresh_heap_eq:
  "fresh_heap = \<lparr>products = [\<lparr>product_parts = []\<rparr>], builders = [example_builder], directors = []\<rparr>"
  by (simp add: fresh_heap_def example_builder_def eval_defs)

lemma example_context_eq:
  "example_context = \<lparr>train = Configure_task, automl_model = [(''model'', 1)]\<rparr>"
  by (simp add: example_context_def run_automl_def AutoMLPipeline_init_def example_engine_def)

text \<open>
  When the handles of a builder are replaced by a \<^verbatim>\<open>yf.Tickers\<close> object, as in
  \<^verbatim>\<open>b.tickers = yf.Tickers("AAPL MSFT")\<close>, \<^verbatim>\<open>get_dividends\<close> returns and leaves the
  fetched values in \<^verbatim>\<open>self.dict\<close>; the product is still empty.
\<close>

lemma get_dividends_with_tickers_object:
  "let b = example_builder\<lparr>tickers := YfTickers [(''AAPL'', Ticker ''AAPL''), (''MSFT'', Ticker ''MSFT'')]\<rparr>;
       h = fresh_heap\<lparr>builders := [b]\<rparr>;
       (res, h1) = on_builder 0 (get_dividends example_backend) h;
       (p, h2) = stock 0 h1
   in res = Inr () \<and>
      map dict (builders h1) = [[(''AAPL'', 13), (''MSFT'', 13)]] \<and>
      products h1 = products h \<and>
      p = Inr 0 \<and> return_product 0 h2 = (Inr [], h2)"
  by (simp add: fresh_heap_eq example_builder_def on_builder_def lookup_def get_dividends_def
      all_trickers_def getattr_tickers_def getattr_handle_def dict_get_def example_backend_def
      assign_dict_def stock_def reset_def new_FinanceProduct_def return_product_def
      return_product_obj_def FinanceProduct_init_def)

section \<open>The claims\<close>

subsection \<open>C1\<close>

text \<open>
  C1 says that an operation of the builder, such as the dividends operation on a builder
  over a non-empty subject list, stores what it fetched in the product under its own
  name, so that the next \<^verbatim>\<open>stock\<close> holds exactly the key \<^verbatim>\<open>get_dividends\<close>. The code does
  not: with a director, a builder over AAPL and MSFT installed in it, the call
  \<^verbatim>\<open>find_dividends\<close> raises the \<^verbatim>\<open>AttributeError\<close> of a dictionary without attribute
  \<^verbatim>\<open>tickers\<close>, the heap is as before the call, and the product read afterwards is empty.
\<close>

theorem get_dividends_adds_nothing:
  "let (d, h0) = FinanceCollector_init (empty_heap :: ('a, 'v) heap);
       (b, h1) = DesignerFinanceCollector_init [''AAPL'', ''MSFT''] h0;
       (u, h2) = builder_setter d (Some b) h1;
       (res, h3) = find_dividends (B :: 'v backend) d h2;
       (p, h4) = stock b h3
   in u = Inr () \<and> res = Inl (AttributeError ''dict'' ''tickers'') \<and> h3 = h2 \<and>
      p = Inr 0 \<and> return_product 0 h4 = (Inr [], h4)"
  by (simp add: FinanceCollector_init_def init_builder empty_heap_def builder_setter_def
      lookup_def find_dividends_def forward_def builder_def on_builder_def get_dividends_def
      ticker_dict_def all_trickers_PyDict assign_dict_def stock_def reset_def
      new_FinanceProduct_def return_product_def return_product_obj_def FinanceProduct_init_def)

subsection \<open>C2\<close>

text \<open>
  C2: reading \<^verbatim>\<open>stock\<close> returns the product the builder holds, with all it has
  accumulated, and leaves the builder with a new, empty product; a second read, with no
  add in between, returns that empty product.
\<close>

theorem stock_read_then_clear:
  fixes h :: "('a, 'v) heap"
  assumes b: "lookup (builders h) b = Some bd"
    and p: "lookup (products h) (priv_product bd) = Some p"
  shows "\<exists>h1 h2 bd1.
     stock b h = (Inr (priv_product bd), h1) \<and>
     return_product (priv_product bd) h1 = (Inr (product_parts p), h1) \<and>
     lookup (builders h1) b = Some bd1 \<and>
     lookup (products h1) (priv_product bd1) = Some FinanceProduct_init \<and>
     stock b h1 = (Inr (priv_product bd1), h2) \<and>
     return_product (priv_product bd1) h2 = (Inr [], h2)"
proof -
  from stock_twice [OF b p] obtain h1 h2 :: "('a, 'v) heap" where
    s: "stock b h = (Inr (priv_product bd), h1)"
      "lookup (products h1) (priv_product bd) = Some p"
      "lookup (builders h1) b = Some (bd\<lparr>priv_product := length (products h)\<rparr>)"
      "lookup (products h1) (length (products h)) = Some FinanceProduct_init"
      "stock b h1 = (Inr (length (products h)), h2)"
      "lookup (products h2) (length (products h)) = Some FinanceProduct_init"
    by blast
  let ?bd1 = "bd\<lparr>priv_product := length (products h)\<rparr>"
  have r1: "return_product (priv_product bd) h1 = (Inr (product_parts p), h1)"
    by (rule return_product_heap [OF s(2)])
  have r2: "return_product (priv_product ?bd1) h2 = (Inr [], h2)"
    using return_product_heap [OF s(6)] by (simp add: FinanceProduct_init_def)
  have "lookup (products h1) (priv_product ?bd1) = Some FinanceProduct_init"
    using s(4) by simp
  moreover have "stock b h1 = (Inr (priv_product ?bd1), h2)"
    using s(5) by simp
  ultimately show ?thesis
    using s(1) r1 s(3) r2 by blast
qed

text \<open>On the example heap, whose first builder holds two results.\<close>

theorem stock_read_then_clear_witness:
  "lookup (builders example_heap) 0 = Some example_builder \<and>
   lookup (products example_heap) (priv_product example_builder) = Some example_product \<and>
   (\<exists>h1 h2 bd1.
     stock 0 example_heap = (Inr (priv_product example_builder), h1) \<and>
     return_product (priv_product example_builder) h1 = (Inr (product_parts example_product), h1) \<and>
     lookup (builders h1) 0 = Some bd1 \<and>
     lookup (products h1) (priv_product bd1) = Some FinanceProduct_init \<and>
     stock 0 h1 = (Inr (priv_product bd1), h2) \<and>
     return_product (priv_product bd1) h2 = (Inr [], h2))"
proof -
  have b: "lookup (builders example_heap) 0 = Some example_builder"
    by (simp add: example_heap_eq lookup_def)
  have p: "lookup (products example_heap) (priv_product example_builder) = Some example_product"
    by (simp add: example_heap_eq lookup_def example_builder_def)
  from stock_read_then_clear [OF b p] b p show ?thesis
    by blast
qed

subsection \<open>C3\<close>

text \<open>
  C3 says that \<^verbatim>\<open>all_trickers\<close>, given the handles of a builder, its subject list and an
  operation name, returns one entry per subject. The code does not: the handles a
  builder makes for itself are a plain dictionary, and on the builder over AAPL the
  helper raises the \<^verbatim>\<open>AttributeError\<close> of a dictionary without attribute \<^verbatim>\<open>tickers\<close>.
\<close>

theorem all_trickers_on_builder_handles:
  "\<exists>bd. lookup (builders (snd (DesignerFinanceCollector_init [''AAPL''] (empty_heap :: ('a, 'v) heap))))
            (fst (DesignerFinanceCollector_init [''AAPL''] (empty_heap :: ('a, 'v) heap))) = Some bd \<and>
     keyword_list bd = [''AAPL''] \<and>
     tickers bd = PyDict [(''AAPL'', Ticker ''AAPL'')] \<and>
     all_trickers (B :: 'v backend) (tickers bd) (keyword_list bd) ''dividends'' =
       Inl (AttributeError ''dict'' ''tickers'')"
  by (simp add: init_builder empty_heap_def lookup_def ticker_dict_def all_trickers_PyDict)

subsection \<open>C4\<close>

text \<open>
  C4: after any sequence of adds on the empty product of a builder, \<^verbatim>\<open>stock\<close> returns a
  product whose mapping is exactly the added pairs, a later add for a name replacing
  the earlier one (no name occurs twice); a second \<^verbatim>\<open>stock\<close> right after returns an empty
  product. The identifier of an add is the name of the function it is given.
\<close>

theorem add_then_collect:
  fixes h :: "('a, 'v) heap"
  assumes b: "lookup (builders h) b = Some bd"
    and p: "lookup (products h) (priv_product bd) = Some FinanceProduct_init"
  shows "\<exists>d h1 h2 r2.
     stock b (add_all (priv_product bd) kvs h) = (Inr (priv_product bd), h1) \<and>
     return_product (priv_product bd) h1 = (Inr d, h1) \<and>
     map_of d = map_of (rev (map (\<lambda>kv. (name (fst kv), snd kv)) kvs)) \<and>
     distinct (dict_keys d) \<and>
     stock b h1 = (Inr r2, h2) \<and>
     return_product r2 h2 = (Inr [], h2)"
proof -
  let ?h = "add_all (priv_product bd) kvs h"
  let ?P = "add_all_obj kvs (FinanceProduct_init :: 'a FinanceProduct)"
  have b': "lookup (builders ?h) b = Some bd"
    using b by (simp add: add_all_heap [OF p])
  have p': "lookup (products ?h) (priv_product bd) = Some ?P"
    by (simp add: lookup_products_add_all [OF p])
  from stock_twice [OF b' p'] obtain h1 h2 :: "('a, 'v) heap" where
    s: "stock b ?h = (Inr (priv_product bd), h1)"
      "lookup (products h1) (priv_product bd) = Some ?P"
      "stock b h1 = (Inr (length (products ?h)), h2)"
      "lookup (products h2) (length (products ?h)) = Some FinanceProduct_init"
    by blast
  have r1: "return_product (priv_product bd) h1 = (Inr (product_parts ?P), h1)"
    by (rule return_product_heap [OF s(2)])
  have r2: "return_product (length (products ?h)) h2 = (Inr [], h2)"
    using return_product_heap [OF s(4)] by (simp add: FinanceProduct_init_def)
  have "map_of (product_parts ?P) = map_of (rev (map (\<lambda>kv. (name (fst kv), snd kv)) kvs))"
    by (rule map_of_add_all_obj)
  moreover have "distinct (dict_keys (product_parts ?P))"
    by (simp add: dict_keys_def distinct_add_all_obj)
  ultimately show ?thesis using s(1) r1 s(3) r2 by blast
qed

text \<open>Three adds, the third one under the name of the first.\<close>

theorem add_then_collect_witness:
  "lookup (builders fresh_heap) 0 = Some example_builder \<and>
   lookup (products fresh_heap) (priv_product example_builder) = Some FinanceProduct_init \<and>
   (\<exists>d h1 h2 r2.
     stock 0 (add_all (priv_product example_builder)
         [(\<lparr>ident = 1, name = ''get_splits''\<rparr>, 1), (\<lparr>ident = 2, name = ''get_actions''\<rparr>, 2),
          (\<lparr>ident = 1, name = ''get_splits''\<rparr>, 3)] fresh_heap) =
       (Inr (priv_product example_builder), h1) \<and>
     return_product (priv_product example_builder) h1 = (Inr d, h1) \<and>
     map_of d = [''get_splits'' \<mapsto> 3, ''get_actions'' \<mapsto> 2] \<and>
     distinct (dict_keys d) \<and>
     stock 0 h1 = (Inr r2, h2) \<and>
     return_product r2 h2 = (Inr [], h2))"
proof -
  have b: "lookup (builders fresh_heap) 0 = Some example_builder"
    by (simp add: fresh_heap_eq lookup_def)
  have p: "lookup (products fresh_heap) (priv_product example_builder) = Some FinanceProduct_init"
    by (simp add: fresh_heap_eq lookup_def example_builder_def FinanceProduct_init_def)
  have m: "map_of (rev (map (\<lambda>kv. (name (fst kv), snd kv))
        [(\<lparr>ident = 1, name = ''get_splits''\<rparr>, 1::nat), (\<lparr>ident = 2, name = ''get_actions''\<rparr>, 2),
          (\<lparr>ident = 1, name = ''get_splits''\<rparr>, 3)])) =
      [''get_splits'' \<mapsto> 3, ''get_actions'' \<mapsto> 2]"
    by (simp add: fun_eq_iff)
  from add_then_collect [OF b p, of "[(\<lparr>ident = 1, name = ''get_splits''\<rparr>, 1), (\<lparr>ident = 2, name = ''get_actions''\<rparr>, 2),
          (\<lparr>ident = 1, name = ''get_splits''\<rparr>, 3)]"] b p show ?thesis
    unfolding m by blast
qed

subsection \<open>C5\<close>

text \<open>
  C5: on a director that has no builder, every \<^verbatim>\<open>find_*\<close> method fails and changes
  nothing. The failure, which the specification calls NoBuilderInstalled, is the
  \<^verbatim>\<open>AttributeError\<close> that Python raises when the method is looked up on \<^verbatim>\<open>None\<close>.
\<close>

theorem find_without_builder:
  assumes "lookup (directors h) d = Some dr" and "priv_builder dr = None"
  shows "\<exists>m. call_find B c d h = (Inl (AttributeError ''NoneType'' m), h)"
  using assms
  by (cases c)
    (simp_all add: forward_def builder_def find_chart_histogram_def find_isin_code_def
      find_major_holders_def find_institutional_holders_def find_mutualfund_holders_def
      find_dividends_def find_splits_def find_actions_def find_info_def find_calendar_def
      find_recommendations_def find_earnings_def find_quarterly_earnings_def
      find_financials_def find_quarterly_financials_def find_balancesheet_def
      find_quarterly_balancesheet_def find_cashflow_def find_quarterly_cashflow_def
      find_sustainability_def find_options_def)

text \<open>On a director as its constructor leaves it.\<close>

theorem find_without_builder_witness:
  "lookup (directors (snd (FinanceCollector_init fresh_heap))) 0 = Some \<lparr>priv_builder = None\<rparr> \<and>
   priv_builder \<lparr>priv_builder = None\<rparr> = None \<and>
   (\<exists>m. call_find example_backend (Chart_history default_history_args) 0
           (snd (FinanceCollector_init fresh_heap)) =
         (Inl (AttributeError ''NoneType'' m), snd (FinanceCollector_init fresh_heap)))"
proof -
  have d: "lookup (directors (snd (FinanceCollector_init fresh_heap))) 0 = Some \<lparr>priv_builder = None\<rparr>"
    by (simp add: FinanceCollector_init_def fresh_heap_eq lookup_def)
  have n: "priv_builder \<lparr>priv_builder = None\<rparr> = None"
    by simp
  from find_without_builder [OF d n] d n show ?thesis
    by blast
qed

subsection \<open>C6\<close>

text \<open>
  C6: \<^verbatim>\<open>list_product_parts\<close> changes nothing and returns \<^verbatim>\<open>Product parts: \<close> followed by
  all the stored names joined by a comma and a space, that is, the first name and then
  every further name with the separator before it; after any sequence of adds on an
  empty product the names stand in the order of their first insertion.
\<close>

theorem list_product_parts_insertion_order:
  "(lookup (products h) r = Some p \<longrightarrow>
      list_product_parts r h =
        (Inr (''Product parts: '' @
              (case map fst (product_parts p) of
                 [] \<Rightarrow> []
               | k # ks \<Rightarrow> k @ concat (map (\<lambda>k'. '', '' @ k') ks))), h)) \<and>
   (lookup (products h) r = Some FinanceProduct_init \<longrightarrow>
      list_product_parts r (add_all r kvs h) =
        (Inr (''Product parts: '' @
              (case rev (remdups (rev (map (\<lambda>kv. name (fst kv)) kvs))) of
                 [] \<Rightarrow> []
               | k # ks \<Rightarrow> k @ concat (map (\<lambda>k'. '', '' @ k') ks))),
         add_all r kvs h))"
proof (intro conjI impI)
  assume "lookup (products h) r = Some p"
  then show "list_product_parts r h =
      (Inr (''Product parts: '' @
            (case map fst (product_parts p) of
               [] \<Rightarrow> []
             | k # ks \<Rightarrow> k @ concat (map (\<lambda>k'. '', '' @ k') ks))), h)"
    by (simp add: list_product_parts_def list_product_parts_obj_def dict_keys_def
        str_join_concat [of "'', ''"])
next
  assume e: "lookup (products h) r = Some FinanceProduct_init"
  then have "lookup (products (add_all r kvs h)) r = Some (add_all_obj kvs FinanceProduct_init)"
    by (auto simp: add_all_heap lookup_update dest: lookup_SomeD)
  moreover have "str_join '', '' (dict_keys (product_parts (add_all_obj kvs FinanceProduct_init))) =
      (case rev (remdups (rev (map (\<lambda>kv. name (fst kv)) kvs))) of
         [] \<Rightarrow> []
       | k # ks \<Rightarrow> k @ concat (map (\<lambda>k'. '', '' @ k') ks))"
    by (simp only: keys_add_all_obj str_join_concat [of "'', ''"])
  ultimately show "list_product_parts r (add_all r kvs h) =
      (Inr (''Product parts: '' @
            (case rev (remdups (rev (map (\<lambda>kv. name (fst kv)) kvs))) of
               [] \<Rightarrow> []
             | k # ks \<Rightarrow> k @ concat (map (\<lambda>k'. '', '' @ k') ks))),
       add_all r kvs h)"
    by (simp add: list_product_parts_def list_product_parts_obj_def)
qed

text \<open>
  After storing \<^verbatim>\<open>get_splits\<close> and then \<^verbatim>\<open>get_actions\<close>; and after five adds under four
  names, the fourth add replacing the value of the first.
\<close>

theorem list_product_parts_witness:
  "lookup (products (snd (new_FinanceProduct (empty_heap :: (nat, nat) heap)))) 0 =
     Some FinanceProduct_init \<and>
   list_product_parts 0
     (add_all 0 [(\<lparr>ident = 1, name = ''get_splits''\<rparr>, 10::nat), (\<lparr>ident = 2, name = ''get_actions''\<rparr>, 20)]
        (snd (new_FinanceProduct (empty_heap :: (nat, nat) heap)))) =
   (Inr ''Product parts: get_splits, get_actions'',
    \<lparr>products = [\<lparr>product_parts = [(''get_splits'', 10), (''get_actions'', 20)]\<rparr>],
     builders = [], directors = []\<rparr>) \<and>
   list_product_parts 0
     (add_all 0 [(\<lparr>ident = 1, name = ''get_splits''\<rparr>, 10::nat), (\<lparr>ident = 2, name = ''get_actions''\<rparr>, 20),
                 (\<lparr>ident = 3, name = ''get_info''\<rparr>, 30), (\<lparr>ident = 1, name = ''get_splits''\<rparr>, 40),
                 (\<lparr>ident = 4, name = ''get_options''\<rparr>, 50)]
        (snd (new_FinanceProduct (empty_heap :: (nat, nat) heap)))) =
   (Inr ''Product parts: get_splits, get_actions, get_info, get_options'',
    \<lparr>products = [\<lparr>product_parts = [(''get_splits'', 40), (''get_actions'', 20), (''get_info'', 30),
                                     (''get_options'', 50)]\<rparr>],
     builders = [], directors = []\<rparr>)"
proof -
  let ?h = "snd (new_FinanceProduct (empty_heap :: (nat, nat) heap))"
  let ?two = "[(\<lparr>ident = 1, name = ''get_splits''\<rparr>, 10::nat), (\<lparr>ident = 2, name = ''get_actions''\<rparr>, 20)]"
  let ?five = "[(\<lparr>ident = 1, name = ''get_splits''\<rparr>, 10::nat), (\<lparr>ident = 2, name = ''get_actions''\<rparr>, 20),
                 (\<lparr>ident = 3, name = ''get_info''\<rparr>, 30), (\<lparr>ident = 1, name = ''get_splits''\<rparr>, 40),
                 (\<lparr>ident = 4, name = ''get_options''\<rparr>, 50)]"
  have l: "lookup (products ?h) 0 = Some FinanceProduct_init"
    by (simp add: new_FinanceProduct_def empty_heap_def lookup_def)
  have a2: "add_all 0 ?two ?h =
      \<lparr>products = [\<lparr>product_parts = [(''get_splits'', 10), (''get_actions'', 20)]\<rparr>],
       builders = [], directors = []\<rparr>"
    by (simp add: add_all_def add_product_def lookup_def new_FinanceProduct_def empty_heap_def
        add_product_obj_def FinanceProduct_init_def)
  have a5: "add_all 0 ?five ?h =
      \<lparr>products = [\<lparr>product_parts = [(''get_splits'', 40), (''get_actions'', 20), (''get_info'', 30),
                                     (''get_options'', 50)]\<rparr>],
       builders = [], directors = []\<rparr>"
    by (simp add: add_all_def add_product_def lookup_def new_FinanceProduct_def empty_heap_def
        add_product_obj_def FinanceProduct_init_def)
  from list_product_parts_insertion_order [of ?h 0 FinanceProduct_init ?two] l
  have t2: "list_product_parts 0 (add_all 0 ?two ?h) =
      (Inr ''Product parts: get_splits, get_actions'', add_all 0 ?two ?h)"
    by simp
  from list_product_parts_insertion_order [of ?h 0 FinanceProduct_init ?five] l
  have t5: "list_product_parts 0 (add_all 0 ?five ?h) =
      (Inr ''Product parts: get_splits, get_actions, get_info, get_options'', add_all 0 ?five ?h)"
    by simp
  from l t2 t5 show ?thesis by (simp only: a2 a5 simp_thms)
qed

subsection \<open>C7\<close>

text \<open>
  C7: assigning another builder to a director changes the reference the director holds
  and nothing else: every product and every builder is as before, so the builder that
  was installed still holds the product it held, with the same contents.
\<close>

theorem builder_setter_frame:
  assumes d: "lookup (directors h) d = Some dr"
  shows "\<exists>h'. builder_setter d b' h = (Inr (), h') \<and>
     builder d h' = (Inr b', h') \<and>
     products h' = products h \<and>
     builders h' = builders h \<and>
     (\<forall>b0 bd0. priv_builder dr = Some b0 \<and> lookup (builders h) b0 = Some bd0 \<longrightarrow>
        lookup (builders h') b0 = Some bd0 \<and>
        return_product (priv_product bd0) h' = (fst (return_product (priv_product bd0) h), h'))"
  using d
  by (auto simp: builder_setter_def builder_def lookup_update return_product_def
      dest: lookup_SomeD split: option.splits)

text \<open>On the example heap, the second builder replaces the first.\<close>

theorem builder_setter_frame_witness:
  "lookup (directors example_heap) 0 = Some \<lparr>priv_builder = Some 0\<rparr> \<and>
   (\<exists>h'. builder_setter 0 (Some 1) example_heap = (Inr (), h') \<and>
     builder 0 h' = (Inr (Some 1), h') \<and>
     products h' = products example_heap \<and>
     builders h' = builders example_heap \<and>
     lookup (builders h') 0 = Some example_builder \<and>
     return_product (priv_product example_builder) h' =
       (Inr [(''get_splits'', 1), (''get_actions'', 2)], h'))"
proof -
  have d: "lookup (directors example_heap) 0 = Some \<lparr>priv_builder = Some 0\<rparr>"
    by (simp add: example_heap_eq lookup_def)
  have b: "lookup (builders example_heap) 0 = Some example_builder"
    by (simp add: example_heap_eq lookup_def)
  have r: "fst (return_product (priv_product example_builder) example_heap) =
      Inr [(''get_splits'', 1), (''get_actions'', 2)]"
    by (simp add: example_heap_eq example_builder_def example_product_def return_product_def
        return_product_obj_def lookup_def)
  from builder_setter_frame [OF d, of "Some 1"] obtain h' where
    h: "builder_setter 0 (Some 1) example_heap = (Inr (), h')"
      "builder 0 h' = (Inr (Some 1), h')"
      "products h' = products example_heap"
      "builders h' = builders example_heap"
      "\<forall>b0 bd0. priv_builder \<lparr>priv_builder = Some 0\<rparr> = Some b0 \<and>
          lookup (builders example_heap) b0 = Some bd0 \<longrightarrow>
        lookup (builders h') b0 = Some bd0 \<and>
        return_product (priv_product bd0) h' =
          (fst (return_product (priv_product bd0) example_heap), h')"
    by blast
  from h(5) b have "lookup (builders h') 0 = Some example_builder \<and>
      return_product (priv_product example_builder) h' =
        (fst (return_product (priv_product example_builder) example_heap), h')"
    by simp
  with h(1-4) d r show ?thesis
    by auto
qed

subsection \<open>C8\<close>

text \<open>
  C8: when a staged-execution context runs the stages fit, evaluate and predict, each
  run succeeding, the results mapping afterwards binds \<^verbatim>\<open>model\<close>, \<^verbatim>\<open>evaluation\<close> and
  \<^verbatim>\<open>prediction\<close>, each to the value its own stage computed (no later stage of the three
  has overwritten it), and reading a result by its name leaves the context as it is.
\<close>

theorem staged_run_keeps_results:
  assumes r1: "run_automl E (train_setter Fit c0) = (Inr (), c1)"
    and r2: "run_automl E (train_setter Evaluate c1) = (Inr (), c2)"
    and r3: "run_automl E (train_setter Predict c2) = (Inr (), c3)"
  shows "\<exists>m e p. E Fit (automl_model c0) = Inr m \<and>
     E Evaluate (automl_model c1) = Inr e \<and>
     E Predict (automl_model c2) = Inr p \<and>
     return_automl ''model'' c1 = (Some m, c1) \<and>
     return_automl ''evaluation'' c2 = (Some e, c2) \<and>
     return_automl ''model'' c3 = (Some m, c3) \<and>
     return_automl ''evaluation'' c3 = (Some e, c3) \<and>
     return_automl ''prediction'' c3 = (Some p, c3)"
proof -
  from r1 obtain m where m: "E Fit (automl_model c0) = Inr m"
    and c1: "c1 = c0\<lparr>train := Fit, automl_model := dict_setitem ''model'' m (automl_model c0)\<rparr>"
    by (auto simp: run_automl_def train_setter_def split: sum.splits)
  from r2 obtain e where e: "E Evaluate (automl_model c1) = Inr e"
    and c2: "c2 = c1\<lparr>train := Evaluate, automl_model := dict_setitem ''evaluation'' e (automl_model c1)\<rparr>"
    by (auto simp: run_automl_def train_setter_def split: sum.splits)
  from r3 obtain p where p: "E Predict (automl_model c2) = Inr p"
    and c3: "c3 = c2\<lparr>train := Predict, automl_model := dict_setitem ''prediction'' p (automl_model c2)\<rparr>"
    by (auto simp: run_automl_def train_setter_def split: sum.splits)
  have "return_automl ''model'' c1 = (Some m, c1)"
    by (simp add: return_automl_def c1 dict_get_setitem)
  moreover have "return_automl ''evaluation'' c2 = (Some e, c2)"
    by (simp add: return_automl_def c2 dict_get_setitem)
  moreover have "return_automl ''model'' c3 = (Some m, c3)"
    by (simp add: return_automl_def c3 c2 c1 dict_get_setitem)
  moreover have "return_automl ''evaluation'' c3 = (Some e, c3)"
    by (simp add: return_automl_def c3 c2 dict_get_setitem)
  moreover have "return_automl ''prediction'' c3 = (Some p, c3)"
    by (simp add: return_automl_def c3 dict_get_setitem)
  ultimately show ?thesis using m e p by blast
qed

text \<open>With the example engine, after the configure-task stage.\<close>

theorem staged_run_keeps_results_witness:
  "run_automl example_engine (train_setter Fit example_context) =
     (Inr (), \<lparr>train = Fit, automl_model = [(''model'', 2)]\<rparr>) \<and>
   run_automl example_engine (train_setter Evaluate \<lparr>train = Fit, automl_model = [(''model'', 2)]\<rparr>) =
     (Inr (), \<lparr>train = Evaluate, automl_model = [(''model'', 2), (''evaluation'', 12)]\<rparr>) \<and>
   run_automl example_engine
       (train_setter Predict \<lparr>train = Evaluate, automl_model = [(''model'', 2), (''evaluation'', 12)]\<rparr>) =
     (Inr (), \<lparr>train = Predict,
        automl_model = [(''model'', 2), (''evaluation'', 12), (''prediction'', 102)]\<rparr>) \<and>
   (\<exists>m e p. example_engine Fit (automl_model example_context) = Inr m \<and>
     example_engine Evaluate [(''model'', 2)] = Inr e \<and>
     example_engine Predict [(''model'', 2), (''evaluation'', 12)] = Inr p \<and>
     return_automl ''model'' \<lparr>train = Predict,
        automl_model = [(''model'', 2), (''evaluation'', 12), (''prediction'', 102)]\<rparr> =
       (Some m, \<lparr>train = Predict,
        automl_model = [(''model'', 2), (''evaluation'', 12), (''prediction'', 102)]\<rparr>) \<and>
     return_automl ''evaluation'' \<lparr>train = Predict,
        automl_model = [(''model'', 2), (''evaluation'', 12), (''prediction'', 102)]\<rparr> =
       (Some e, \<lparr>train = Predict,
        automl_model = [(''model'', 2), (''evaluation'', 12), (''prediction'', 102)]\<rparr>) \<and>
     return_automl ''prediction'' \<lparr>train = Predict,
        automl_model = [(''model'', 2), (''evaluation'', 12), (''prediction'', 102)]\<rparr> =
       (Some p, \<lparr>train = Predict,
        automl_model = [(''model'', 2), (''evaluation'', 12), (''prediction'', 102)]\<rparr>))"
proof -
  let ?c1 = "\<lparr>train = Fit, automl_model = [(''model'', 2::nat)]\<rparr>"
  let ?c2 = "\<lparr>train = Evaluate, automl_model = [(''model'', 2::nat), (''evaluation'', 12)]\<rparr>"
  let ?c3 = "\<lparr>train = Predict,
        automl_model = [(''model'', 2::nat), (''evaluation'', 12), (''prediction'', 102)]\<rparr>"
  have r1: "run_automl example_engine (train_setter Fit example_context) = (Inr (), ?c1)"
    by (simp add: example_context_eq run_automl_def train_setter_def example_engine_def dict_get_def)
  have r2: "run_automl example_engine (train_setter Evaluate ?c1) = (Inr (), ?c2)"
    by (simp add: run_automl_def train_setter_def example_engine_def dict_get_def)
  have r3: "run_automl example_engine (train_setter Predict ?c2) = (Inr (), ?c3)"
    by (simp add: run_automl_def train_setter_def example_engine_def dict_get_def)
  from staged_run_keeps_results [OF r1 r2 r3] r1 r2 r3 show ?thesis
    by auto
qed

subsection \<open>C9\<close>

text \<open>
  C9: reading \<^verbatim>\<open>return_product\<close> changes nothing, so a second read returns the same
  mapping. The builder is empty after \<^verbatim>\<open>stock\<close> because it then holds a new product
  object, one that did not exist before; the object \<^verbatim>\<open>stock\<close> returned keeps its contents
  through every later sequence of \<^verbatim>\<open>get_*\<close>, \<^verbatim>\<open>stock\<close> and \<^verbatim>\<open>reset\<close> calls on any builder.
\<close>

theorem return_product_pure_read:
  fixes h :: "('a, 'v) heap"
  shows "return_product r (snd (return_product r h)) = return_product r h \<and>
   snd (return_product r h) = h \<and>
   (lookup (builders h) b = Some bd \<and> lookup (products h) (priv_product bd) = Some p \<longrightarrow>
      (\<exists>h1 bd1. stock b h = (Inr (priv_product bd), h1) \<and>
         lookup (builders h1) b = Some bd1 \<and>
         priv_product bd1 \<noteq> priv_product bd \<and>
         lookup (products h) (priv_product bd1) = None \<and>
         lookup (products h1) (priv_product bd1) = Some FinanceProduct_init \<and>
         (\<forall>b' ops. lookup (products (builder_run B b' ops h1)) (priv_product bd) = Some p)))"
proof (intro conjI impI)
  show pure: "snd (return_product r h) = h"
    by (simp add: return_product_def split: option.splits)
  show "return_product r (snd (return_product r h)) = return_product r h"
    by (simp add: pure)
next
  assume a: "lookup (builders h) b = Some bd \<and> lookup (products h) (priv_product bd) = Some p"
  then have b: "lookup (builders h) b = Some bd"
    and p: "lookup (products h) (priv_product bd) = Some p"
    by simp_all
  from stock_twice [OF b p] obtain h1 :: "('a, 'v) heap" where
    s: "stock b h = (Inr (priv_product bd), h1)"
      "lookup (products h1) (priv_product bd) = Some p"
      "lookup (builders h1) b = Some (bd\<lparr>priv_product := length (products h)\<rparr>)"
      "lookup (products h1) (length (products h)) = Some FinanceProduct_init"
    by blast
  let ?bd1 = "bd\<lparr>priv_product := length (products h)\<rparr>"
  from p have ne: "priv_product ?bd1 \<noteq> priv_product bd"
    by (auto dest: lookup_SomeD)
  have fresh: "lookup (products h) (priv_product ?bd1) = None"
    by (simp add: lookup_def)
  have later: "\<forall>b' ops. lookup (products (builder_run B b' ops h1)) (priv_product bd) = Some p"
    using lookup_prefix [OF builder_run_products s(2)] by blast
  from s(4) have "lookup (products h1) (priv_product ?bd1) = Some FinanceProduct_init"
    by simp
  with s(1) s(3) ne fresh later
  show "\<exists>h1 bd1. stock b h = (Inr (priv_product bd), h1) \<and>
         lookup (builders h1) b = Some bd1 \<and>
         priv_product bd1 \<noteq> priv_product bd \<and>
         lookup (products h) (priv_product bd1) = None \<and>
         lookup (products h1) (priv_product bd1) = Some FinanceProduct_init \<and>
         (\<forall>b' ops. lookup (products (builder_run B b' ops h1)) (priv_product bd) = Some p)"
    by blast
qed

text \<open>On the example heap.\<close>

theorem return_product_pure_read_witness:
  "lookup (builders example_heap) 0 = Some example_builder \<and>
   lookup (products example_heap) (priv_product example_builder) = Some example_product \<and>
   return_product 0 (snd (return_product 0 example_heap)) = return_product 0 example_heap \<and>
   snd (return_product 0 example_heap) = example_heap \<and>
   (\<exists>h1 bd1. stock 0 example_heap = (Inr (priv_product example_builder), h1) \<and>
         lookup (builders h1) 0 = Some bd1 \<and>
         priv_product bd1 \<noteq> priv_product example_builder \<and>
         lookup (products example_heap) (priv_product bd1) = None \<and>
         lookup (products h1) (priv_product bd1) = Some FinanceProduct_init \<and>
         (\<forall>b' ops. lookup (products (builder_run example_backend b' ops h1))
              (priv_product example_builder) = Some example_product))"
proof -
  have b: "lookup (builders example_heap) 0 = Some example_builder"
    by (simp add: example_heap_eq lookup_def)
  have p: "lookup (products example_heap) (priv_product example_builder) = Some example_product"
    by (simp add: example_heap_eq lookup_def example_builder_def)
  from return_product_pure_read [of 0 example_heap 0 example_builder example_product example_backend]
    b p show ?thesis
    by blast
qed

subsection \<open>C10\<close>

text \<open>
  C10: \<^verbatim>\<open>add_product\<close> takes a function and stores the value under the function's
  \<^verbatim>\<open>__name__\<close>. Two adds with functions of the same name, equal or not, leave what one
  add of the second value leaves: on an empty product exactly one entry, under that
  name, holding the second value.
\<close>

theorem add_product_key_is_name:
  assumes n: "name f = name g"
    and p: "lookup (products h) r = Some p"
  shows "\<exists>h2. snd (add_product r g w (snd (add_product r f v h))) = h2 \<and>
     return_product r h2 = (Inr (dict_setitem (name f) w (product_parts p)), h2) \<and>
     (p = FinanceProduct_init \<longrightarrow> return_product r h2 = (Inr [(name f, w)], h2))"
proof -
  let ?h1 = "h\<lparr>products := (products h)[r := add_product_obj f v p]\<rparr>"
  have p1: "lookup (products ?h1) r = Some (add_product_obj f v p)"
    using p by (auto simp: lookup_update dest: lookup_SomeD)
  let ?h2 = "?h1\<lparr>products := (products ?h1)[r := add_product_obj g w (add_product_obj f v p)]\<rparr>"
  have p2: "lookup (products ?h2) r = Some (add_product_obj g w (add_product_obj f v p))"
    using p by (auto simp: lookup_update dest: lookup_SomeD)
  have h2: "snd (add_product r g w (snd (add_product r f v h))) = ?h2"
    by (simp add: add_product_heap [OF p] add_product_heap [OF p1])
  have "product_parts (add_product_obj g w (add_product_obj f v p)) =
      dict_setitem (name f) w (product_parts p)"
    by (simp add: add_product_obj_def n [symmetric] dict_setitem_twice)
  with return_product_heap [OF p2]
  have "return_product r ?h2 = (Inr (dict_setitem (name f) w (product_parts p)), ?h2)"
    by simp
  then have r: "return_product r ?h2 = (Inr (dict_setitem (name f) w (product_parts p)), ?h2) \<and>
     (p = FinanceProduct_init \<longrightarrow> return_product r ?h2 = (Inr [(name f, w)], ?h2))"
    by (auto simp: FinanceProduct_init_def)
  show ?thesis
    unfolding h2 using r by blast
qed

text \<open>Two distinct functions, both named \<^verbatim>\<open>get_dividends\<close>.\<close>

theorem add_product_key_is_name_witness:
  "name \<lparr>ident = 1, name = ''get_dividends''\<rparr> = name \<lparr>ident = 2, name = ''get_dividends''\<rparr> \<and>
   \<lparr>ident = 1, name = ''get_dividends''\<rparr> \<noteq> \<lparr>ident = 2, name = ''get_dividends''\<rparr> \<and>
   lookup (products fresh_heap) 0 = Some FinanceProduct_init \<and>
   (\<exists>h2. snd (add_product 0 \<lparr>ident = 2, name = ''get_dividends''\<rparr> 8
            (snd (add_product 0 \<lparr>ident = 1, name = ''get_dividends''\<rparr> 7 fresh_heap))) = h2 \<and>
      return_product 0 h2 = (Inr [(''get_dividends'', 8)], h2))"
proof -
  have n: "name \<lparr>ident = 1, name = ''get_dividends''\<rparr> = name \<lparr>ident = 2, name = ''get_dividends''\<rparr>"
    by simp
  have p: "lookup (products fresh_heap) 0 = Some FinanceProduct_init"
    by (simp add: fresh_heap_eq lookup_def FinanceProduct_init_def)
  from add_product_key_is_name [OF n p, of 8 7] n p show ?thesis
    by auto
qed

end
